theory Spec2Isabelle
  imports Main
begin

section \<open>Strings and JSON values of the JavaScript runtime\<close>

text \<open>
  The program is a React/TypeScript application. Its strings are modelled as
  \<^typ>\<open>string\<close>: one \<^typ>\<open>char\<close> stands for one UTF-16 code unit, the alphabet of the model
  being the code units below 0x100. \<open>s.length\<close> is \<^term>\<open>length s\<close>, \<open>s.substring(0, n)\<close>
  is \<^term>\<open>take n s\<close>, a string is truthy when it is not empty.

  \<open>JSON.parse\<close> and \<open>JSON.stringify\<close> are built-ins of the runtime that the program calls on
  the backend's response, on the stored history and on what it stores. They are modelled on
  the JSON grammar (ECMA-404): a scanner, then a stack automaton over the tokens, both by
  structural recursion, so that parsing is total and a text that is not JSON gives
  \<^term>\<open>None\<close> (the \<open>SyntaxError\<close> of the runtime). A number is carried as its literal,
  and \<open>JSON.stringify\<close> prints the literal: two literals of one number are two values of
  the model. Where the program computes with a number, the model takes the value of the
  literal. The members of an object are kept in the order in which the runtime lists the
  properties. An escape \<open>\uXXXX\<close> is read modulo the alphabet of the model.
\<close>

datatype json =
    JNull
  | JBool bool
  | JNum string
  | JStr string
  | JArr "json list"
  | JObj "(string \<times> json) list"

datatype token =
    TLBrace | TRBrace | TLBrack | TRBrack | TComma | TColon
  | TStr string | TNum string | TTrue | TFalse | TNull

definition is_ws :: "char \<Rightarrow> bool" where
  "is_ws c = (c = CHR '' '' \<or> c = CHR 0x09 \<or> c = CHR 0x0A \<or> c = CHR 0x0D)"

definition is_digit :: "char \<Rightarrow> bool" where
  "is_digit c = (c \<in> set ''0123456789'')"

definition is_hex :: "char \<Rightarrow> bool" where
  "is_hex c = (c \<in> set ''0123456789abcdefABCDEF'')"

definition hex_val :: "char \<Rightarrow> nat" where
  "hex_val c =
     (if is_digit c then of_char c - 48
      else if c \<in> set ''abcdef'' then of_char c - 87
      else of_char c - 55)"

definition unescape :: "char \<Rightarrow> char option" where
  "unescape e =
     (if e = CHR 0x22 then Some (CHR 0x22)
      else if e = CHR 0x5C then Some (CHR 0x5C)
      else if e = CHR ''/'' then Some (CHR ''/'')
      else if e = CHR ''b'' then Some (CHR 0x08)
      else if e = CHR ''f'' then Some (CHR 0x0C)
      else if e = CHR ''n'' then Some (CHR 0x0A)
      else if e = CHR ''r'' then Some (CHR 0x0D)
      else if e = CHR ''t'' then Some (CHR 0x09)
      else None)"

text \<open>
  The body of a string literal, after its opening quote: the characters read so far (in
  reverse) and the input. The result is the string and the number of characters of the
  input that the literal took, its closing quote included.
\<close>

fun lex_string :: "string \<Rightarrow> nat \<Rightarrow> string \<Rightarrow> (string \<times> nat) option" where
  "lex_string acc n [] = None"
| "lex_string acc n (c # cs) =
     (if c = CHR 0x22 then Some (rev acc, Suc n)
      else if c = CHR 0x5C then
        (case cs of
           [] \<Rightarrow> None
         | e # cs' \<Rightarrow>
             if e = CHR ''u'' then
               (case cs' of
                  h1 # h2 # h3 # h4 # cs'' \<Rightarrow>
                    if is_hex h1 \<and> is_hex h2 \<and> is_hex h3 \<and> is_hex h4
                    then lex_string
                           (char_of (4096 * hex_val h1 + 256 * hex_val h2
                                     + 16 * hex_val h3 + hex_val h4) # acc)
                           (n + 6) cs''
                    else None
                | _ \<Rightarrow> None)
             else
               (case unescape e of
                  None \<Rightarrow> None
                | Some x \<Rightarrow> lex_string (x # acc) (n + 2) cs'))
      else if (of_char c :: nat) < 32 then None
      else lex_string (c # acc) (Suc n) cs)"

text \<open>
  A number literal at the head of the input:
  \<open>-? (0 | [1-9][0-9]*) (. [0-9]+)? ([eE] [+-]? [0-9]+)?\<close>.
\<close>

definition lex_int :: "string \<Rightarrow> string option" where
  "lex_int cs =
     (case cs of
        [] \<Rightarrow> None
      | d # ds \<Rightarrow>
          if d = CHR ''0'' then Some [d]
          else if is_digit d then Some (takeWhile is_digit cs)
          else None)"

definition lex_frac :: "string \<Rightarrow> string option" where
  "lex_frac cs =
     (case cs of
        [] \<Rightarrow> Some []
      | d # ds \<Rightarrow>
          if d = CHR ''.'' then
            (if takeWhile is_digit ds = [] then None else Some (d # takeWhile is_digit ds))
          else Some [])"

definition lex_exp :: "string \<Rightarrow> string option" where
  "lex_exp cs =
     (case cs of
        [] \<Rightarrow> Some []
      | e # ds \<Rightarrow>
          if e = CHR ''e'' \<or> e = CHR ''E'' then
            (let sg = (case ds of
                         [] \<Rightarrow> []
                       | x # _ \<Rightarrow> if x = CHR ''+'' \<or> x = CHR ''-'' then [x] else []);
                 dg = takeWhile is_digit (drop (length sg) ds)
             in if dg = [] then None else Some (e # sg @ dg))
          else Some [])"

definition lex_number :: "string \<Rightarrow> string option" where
  "lex_number cs =
     (let sg = (case cs of [] \<Rightarrow> [] | x # _ \<Rightarrow> if x = CHR ''-'' then [x] else [])
      in case lex_int (drop (length sg) cs) of
           None \<Rightarrow> None
         | Some i \<Rightarrow>
             (case lex_frac (drop (length (sg @ i)) cs) of
                None \<Rightarrow> None
              | Some f \<Rightarrow>
                  (case lex_exp (drop (length (sg @ i @ f)) cs) of
                     None \<Rightarrow> None
                   | Some e \<Rightarrow> Some (sg @ i @ f @ e))))"

text \<open>The scanner. Every branch goes on behind what it has read.\<close>

fun lex :: "string \<Rightarrow> token list option" where
  "lex [] = Some []"
| "lex (c # cs) =
     (if is_ws c then lex cs
      else if c = CHR ''{'' then map_option ((#) TLBrace) (lex cs)
      else if c = CHR ''}'' then map_option ((#) TRBrace) (lex cs)
      else if c = CHR ''['' then map_option ((#) TLBrack) (lex cs)
      else if c = CHR '']'' then map_option ((#) TRBrack) (lex cs)
      else if c = CHR '','' then map_option ((#) TComma) (lex cs)
      else if c = CHR '':'' then map_option ((#) TColon) (lex cs)
      else if c = CHR 0x22 then
        (case lex_string [] 0 cs of
           None \<Rightarrow> None
         | Some (s, n) \<Rightarrow> map_option ((#) (TStr s)) (lex (drop n cs)))
      else if c = CHR ''-'' \<or> is_digit c then
        (case lex_number (c # cs) of
           None \<Rightarrow> None
         | Some l \<Rightarrow> map_option ((#) (TNum l)) (lex (drop (length l - 1) cs)))
      else if take 4 (c # cs) = ''true'' then map_option ((#) TTrue) (lex (drop 3 cs))
      else if take 5 (c # cs) = ''false'' then map_option ((#) TFalse) (lex (drop 4 cs))
      else if take 4 (c # cs) = ''null'' then map_option ((#) TNull) (lex (drop 3 cs))
      else None)"

text \<open>
  The parser: a stack automaton. A frame is an open array with the elements read so far,
  or an open object with the members read so far and the key whose value is being read.
  A member whose key was read before replaces the earlier value in place, as assigning a
  property does. The runtime lists the properties of an object with the array indices
  first, in ascending order, then the other keys in the order of their creation; an array
  index is the decimal text, without a leading zero, of an integer below \<open>2^32 - 1\<close>.
\<close>

datatype frame = FArr "json list" | FObj "(string \<times> json) list" string

datatype pstate =
    Value "frame list"
  | FirstElem "frame list"
  | Elems "json list" "frame list"
  | FirstKey "frame list"
  | Key "(string \<times> json) list" "frame list"
  | Colon "(string \<times> json) list" string "frame list"
  | Members "(string \<times> json) list" "frame list"
  | Done json

definition digits_value :: "int \<Rightarrow> string \<Rightarrow> int" where
  "digits_value b ds = foldl (\<lambda>a c. a * b + int (hex_val c)) 0 ds"

definition array_index :: "string \<Rightarrow> int option" where
  "array_index k =
     (if k \<noteq> [] \<and> list_all is_digit k \<and> (k = ''0'' \<or> take 1 k \<noteq> ''0'')
         \<and> digits_value 10 k < 2 ^ 32 - 1
      then Some (digits_value 10 k) else None)"

definition listed_before :: "string \<Rightarrow> string \<Rightarrow> bool" where
  "listed_before k k' =
     (case array_index k of
        None \<Rightarrow> False
      | Some i \<Rightarrow> (case array_index k' of None \<Rightarrow> True | Some j \<Rightarrow> i < j))"

fun obj_set :: "string \<Rightarrow> json \<Rightarrow> (string \<times> json) list \<Rightarrow> (string \<times> json) list" where
  "obj_set k v [] = [(k, v)]"
| "obj_set k v (p # ps) =
     (if fst p = k then (k, v) # ps
      else if listed_before k (fst p) then (k, v) # p # ps
      else p # obj_set k v ps)"

fun reduce :: "json \<Rightarrow> frame list \<Rightarrow> pstate" where
  "reduce v [] = Done v"
| "reduce v (FArr acc # st) = Elems (acc @ [v]) st"
| "reduce v (FObj acc k # st) = Members (obj_set k v acc) st"

fun value_start :: "frame list \<Rightarrow> token \<Rightarrow> pstate option" where
  "value_start st (TStr s) = Some (reduce (JStr s) st)"
| "value_start st (TNum l) = Some (reduce (JNum l) st)"
| "value_start st TTrue = Some (reduce (JBool True) st)"
| "value_start st TFalse = Some (reduce (JBool False) st)"
| "value_start st TNull = Some (reduce JNull st)"
| "value_start st TLBrack = Some (FirstElem st)"
| "value_start st TLBrace = Some (FirstKey st)"
| "value_start st _ = None"

fun step :: "pstate \<Rightarrow> token \<Rightarrow> pstate option" where
  "step (Value st) t = value_start st t"
| "step (FirstElem st) t =
     (if t = TRBrack then Some (reduce (JArr []) st) else value_start (FArr [] # st) t)"
| "step (Elems acc st) t =
     (if t = TComma then Some (Value (FArr acc # st))
      else if t = TRBrack then Some (reduce (JArr acc) st)
      else None)"
| "step (FirstKey st) t =
     (case t of
        TRBrace \<Rightarrow> Some (reduce (JObj []) st)
      | TStr k \<Rightarrow> Some (Colon [] k st)
      | _ \<Rightarrow> None)"
| "step (Key acc st) t = (case t of TStr k \<Rightarrow> Some (Colon acc k st) | _ \<Rightarrow> None)"
| "step (Colon acc k st) t = (if t = TColon then Some (Value (FObj acc k # st)) else None)"
| "step (Members acc st) t =
     (if t = TComma then Some (Key acc st)
      else if t = TRBrace then Some (reduce (JObj acc) st)
      else None)"
| "step (Done v) t = None"

fun run :: "pstate \<Rightarrow> token list \<Rightarrow> pstate option" where
  "run q [] = Some q"
| "run q (t # ts) = (case step q t of None \<Rightarrow> None | Some q' \<Rightarrow> run q' ts)"

definition JSON_parse :: "string \<Rightarrow> json option" where
  "JSON_parse s =
     (case lex s of
        None \<Rightarrow> None
      | Some ts \<Rightarrow> (case run (Value []) ts of Some (Done v) \<Rightarrow> Some v | _ \<Rightarrow> None))"

text \<open>\<open>JSON.stringify\<close> of a value, with no indentation.\<close>

definition hex_digit :: "nat \<Rightarrow> char" where
  "hex_digit n = ''0123456789abcdef'' ! (n mod 16)"

definition escape :: "char \<Rightarrow> string" where
  "escape c =
     (if c = CHR 0x22 then [CHR 0x5C, CHR 0x22]
      else if c = CHR 0x5C then [CHR 0x5C, CHR 0x5C]
      else if c = CHR 0x08 then [CHR 0x5C, CHR ''b'']
      else if c = CHR 0x0C then [CHR 0x5C, CHR ''f'']
      else if c = CHR 0x0A then [CHR 0x5C, CHR ''n'']
      else if c = CHR 0x0D then [CHR 0x5C, CHR ''r'']
      else if c = CHR 0x09 then [CHR 0x5C, CHR ''t'']
      else if (of_char c :: nat) < 32
        then [CHR 0x5C, CHR ''u'', CHR ''0'', CHR ''0'',
              hex_digit (of_char c div 16), hex_digit (of_char c)]
      else [c])"

definition quote :: "string \<Rightarrow> string" where
  "quote s = CHR 0x22 # concat (map escape s) @ [CHR 0x22]"

fun join :: "string \<Rightarrow> string list \<Rightarrow> string" where
  "join sep [] = []"
| "join sep [x] = x"
| "join sep (x # y # ys) = x @ sep @ join sep (y # ys)"

primrec JSON_stringify :: "json \<Rightarrow> string" where
  "JSON_stringify JNull = ''null''"
| "JSON_stringify (JBool b) = (if b then ''true'' else ''false'')"
| "JSON_stringify (JNum l) = l"
| "JSON_stringify (JStr s) = quote s"
| "JSON_stringify (JArr xs) = ''['' @ join '','' (map JSON_stringify xs) @ '']''"
| "JSON_stringify (JObj kvs) =
     ''{'' @ join '','' (map (\<lambda>kv. quote (fst kv) @ '':'' @ snd kv)
                          (map (map_prod id JSON_stringify) kvs)) @ ''}''"

section \<open>The markup renderer (components/MathResponse.tsx)\<close>

text \<open>
  \<open>MathRenderer\<close> splits its text with
  \<open>tex.split(/(\$\$[\s\S]*?\$\$|\$[\s\S]*?\$)/g)\<close> and hands every part that starts and ends
  with a dollar sign to the typesetter. The regular expression is modelled by what it
  matches at a position: two dollar signs, the shortest text, two dollar signs; failing
  that, one dollar sign, the shortest text, one dollar sign.
\<close>

fun find_dollar :: "string \<Rightarrow> nat option" where
  "find_dollar [] = None"
| "find_dollar (c # cs) = (if c = CHR ''$'' then Some 0 else map_option Suc (find_dollar cs))"

fun find_dollars :: "string \<Rightarrow> nat option" where
  "find_dollars (a # b # cs) =
     (if a = CHR ''$'' \<and> b = CHR ''$'' then Some 0
      else map_option Suc (find_dollars (b # cs)))"
| "find_dollars _ = None"

text \<open>The length of the match that starts at the head of the input, when there is one.\<close>

definition match_block :: "string \<Rightarrow> nat option" where
  "match_block s =
     (if take 2 s = ''$$'' then map_option (\<lambda>q. q + 4) (find_dollars (drop 2 s)) else None)"

definition match_inline :: "string \<Rightarrow> nat option" where
  "match_inline s =
     (if take 1 s = ''$'' then map_option (\<lambda>q. q + 2) (find_dollar (drop 1 s)) else None)"

definition match_here :: "string \<Rightarrow> nat option" where
  "match_here s = (case match_block s of Some n \<Rightarrow> Some n | None \<Rightarrow> match_inline s)"

text \<open>
  \<open>String.prototype.split\<close> with a regular expression that has one capture group and never
  matches the empty string: the text before a match, the match, and so on; the text after
  the last match ends the list. The first argument is the text read since the last match.
\<close>

function split_math :: "string \<Rightarrow> string \<Rightarrow> string list" where
  "split_math lit [] = [lit]"
| "split_math lit (c # cs) =
     (case match_here (c # cs) of
        None \<Rightarrow> split_math (lit @ [c]) cs
      | Some n \<Rightarrow> lit # take n (c # cs) # split_math [] (drop n (c # cs)))"
  by pat_completeness auto
termination
proof (relation "measure (\<lambda>(lit, s). length s)")
  show "wf (measure (\<lambda>(lit, s). length s))" by simp
next
  fix lit :: string and c cs
  show "((lit @ [c], cs), (lit, c # cs)) \<in> measure (\<lambda>(lit, s). length s)" by simp
next
  fix lit :: string and c cs n
  assume m: "match_here (c # cs) = Some n"
  have "0 < n"
    using m by (auto simp: match_here_def match_block_def match_inline_def
                     split: option.splits if_splits)
  then show "(([], drop n (c # cs)), (lit, c # cs)) \<in> measure (\<lambda>(lit, s). length s)"
    by simp
qed

definition startsWith :: "string \<Rightarrow> string \<Rightarrow> bool" where
  "startsWith s p = (take (length p) s = p)"

definition endsWith :: "string \<Rightarrow> string \<Rightarrow> bool" where
  "endsWith s p = (length p \<le> length s \<and> drop (length s - length p) s = p)"

text \<open>\<open>s.slice(a, b)\<close>: a negative index counts from the end, and both are clamped.\<close>

definition slice :: "string \<Rightarrow> int \<Rightarrow> int \<Rightarrow> string" where
  "slice s a b =
     (let len = int (length s);
          from = (if a < 0 then max (len + a) 0 else min a len);
          to = (if b < 0 then max (len + b) 0 else min b len)
      in if from < to then take (nat (to - from)) (drop (nat from) s) else [])"

text \<open>
  What one part becomes: display math and inline math go to \<open>katex.render\<close> with the
  delimiters cut off, anything else is the text of a \<open>span\<close>.
\<close>

datatype segment = BlockMath string | InlineMath string | Literal string

definition render_part :: "string \<Rightarrow> segment" where
  "render_part part =
     (if startsWith part ''$$'' \<and> endsWith part ''$$'' then BlockMath (slice part 2 (- 2))
      else if startsWith part ''$'' \<and> endsWith part ''$'' then InlineMath (slice part 1 (- 1))
      else Literal part)"

definition MathRenderer :: "string \<Rightarrow> segment list" where
  "MathRenderer tex = map render_part (split_math [] tex)"

section \<open>The data model (types.ts)\<close>

datatype MessageRole = USER | ASSISTANT

datatype ExplanationLevel = quick | standard | deep | academic

datatype MessageType = text_type | image_type | drawing_type

record Step =
  step_title :: string
  step_explanation :: string
  step_math :: string

record SolveResponse =
  description :: string
  concepts :: "string list"
  steps :: "Step list"
  finalAnswer :: string
  tutoringTip :: "string option"

text \<open>
  The interfaces declare \<open>metadata\<close> a \<open>SolveResponse\<close>, and \<open>title\<close> and \<open>lastMessage\<close> strings.
  What the program puts there comes from the value that \<open>JSON.parse\<close> returned for the text
  of the backend, which nothing checks: the fields hold JSON values, and \<open>lastMessage\<close> may
  be undefined.
\<close>

record Message =
  msg_id :: string
  role :: MessageRole
  content :: string
  msg_timestamp :: nat
  image :: "string option"
  msg_type :: "MessageType option"
  metadata :: "json option"

record ChatHistoryItem =
  item_id :: string
  title :: json
  item_timestamp :: nat
  lastMessage :: "json option"

text \<open>
  \<open>n.toString()\<close> of a non-negative integer below \<open>10^21\<close>, which every reading of
  \<open>Date.now()\<close> is: its decimal digits.
\<close>

fun toString :: "nat \<Rightarrow> string" where
  "toString n =
     (if n < 10 then [''0123456789'' ! n]
      else toString (n div 10) @ [''0123456789'' ! (n mod 10)])"

declare toString.simps [simp del]

text \<open>
  A response of the declared shape as a JSON value, its members in the order of the
  interface: one of the values that the backend may answer with.
\<close>

definition Step_json :: "Step \<Rightarrow> json" where
  "Step_json st =
     JObj [(''title'', JStr (step_title st)),
           (''explanation'', JStr (step_explanation st)),
           (''math'', JStr (step_math st))]"

definition SolveResponse_json :: "SolveResponse \<Rightarrow> json" where
  "SolveResponse_json r =
     JObj ([(''description'', JStr (description r)),
            (''concepts'', JArr (map JStr (concepts r))),
            (''steps'', JArr (map Step_json (steps r))),
            (''finalAnswer'', JStr (finalAnswer r))]
           @ (case tutoringTip r of None \<Rightarrow> [] | Some t \<Rightarrow> [(''tutoringTip'', JStr t)]))"

text \<open>
  A history entry as \<open>JSON.stringify\<close> walks it: the properties in the order of creation,
  without a property whose value is undefined.
\<close>

definition ChatHistoryItem_json :: "ChatHistoryItem \<Rightarrow> json" where
  "ChatHistoryItem_json it =
     JObj ([(''id'', JStr (item_id it)),
            (''title'', title it),
            (''timestamp'', JNum (toString (item_timestamp it)))]
           @ (case lastMessage it of None \<Rightarrow> [] | Some v \<Rightarrow> [(''lastMessage'', v)]))"

section \<open>The solve request client (services/geminiService.ts)\<close>

text \<open>
  \<open>solveMathProblem\<close> builds the parts of the request, awaits
  \<open>ai.models.generateContent\<close> and parses the text of the response. The backend is the
  environment: a function from the request to what the call does, throwing or returning a
  response whose \<open>text\<close> may be undefined. The system instruction is selected by the level,
  which the request carries.
\<close>

datatype error = ApiError string | SyntaxError | TypeError

datatype part = InlineData string string | TextPart string

record GenerateRequest =
  model :: string
  parts :: "part list"
  level :: ExplanationLevel
  responseMimeType :: string

datatype outcome = Throws error | Response "string option"

text \<open>\<open>s.split(',')\<close>: the pieces between the commas.\<close>

fun split_comma :: "string \<Rightarrow> string list" where
  "split_comma [] = [[]]"
| "split_comma (c # cs) =
     (if c = CHR '','' then [] # split_comma cs
      else (case split_comma cs of [] \<Rightarrow> [[c]] | p # ps \<Rightarrow> (c # p) # ps))"

text \<open>\<open>image.split(',')[1] || image\<close>: element 1 is undefined when there is no comma.\<close>

definition base64Data :: "string \<Rightarrow> string" where
  "base64Data img =
     (case drop 1 (split_comma img) of
        [] \<Rightarrow> img
      | p # _ \<Rightarrow> if p \<noteq> [] then p else img)"

text \<open>\<open>input || "Please solve this math problem step-by-step."\<close>\<close>

definition prompt :: "string \<Rightarrow> string" where
  "prompt input =
     (if input \<noteq> [] then input else ''Please solve this math problem step-by-step.'')"

definition contents :: "string \<Rightarrow> string option \<Rightarrow> part list" where
  "contents input img =
     (case img of
        None \<Rightarrow> []
      | Some i \<Rightarrow> if i \<noteq> [] then [InlineData ''image/png'' (base64Data i)] else [])
     @ [TextPart (prompt input)]"

definition request :: "string \<Rightarrow> ExplanationLevel \<Rightarrow> string option \<Rightarrow> GenerateRequest" where
  "request input lvl img =
     \<lparr>model = ''gemini-3-flash-preview'', parts = contents input img, level = lvl,
      responseMimeType = ''application/json''\<rparr>"

text \<open>\<open>response.text || "{}"\<close>\<close>

definition text_or_default :: "string option \<Rightarrow> string" where
  "text_or_default t = (case t of None \<Rightarrow> ''{}'' | Some s \<Rightarrow> if s \<noteq> [] then s else ''{}'')"

definition solveMathProblem ::
  "(GenerateRequest \<Rightarrow> outcome) \<Rightarrow> string \<Rightarrow> ExplanationLevel \<Rightarrow> string option \<Rightarrow> error + json"
where
  "solveMathProblem backend input lvl img =
     (case backend (request input lvl img) of
        Throws e \<Rightarrow> Inl e
      | Response t \<Rightarrow>
          (case JSON_parse (text_or_default t) of
             None \<Rightarrow> Inl SyntaxError
           | Some v \<Rightarrow> Inr v))"

text \<open>
  The \<open>responseSchema\<close> that the request sends: an object whose required properties are
  \<open>description\<close>, \<open>concepts\<close>, \<open>steps\<close> and \<open>finalAnswer\<close>, each step an object whose required
  properties are \<open>title\<close>, \<open>explanation\<close> and \<open>math\<close>; \<open>tutoringTip\<close> is optional.
\<close>

definition is_string :: "json \<Rightarrow> bool" where
  "is_string v = (case v of JStr _ \<Rightarrow> True | _ \<Rightarrow> False)"

definition string_property :: "(string \<times> json) list \<Rightarrow> string \<Rightarrow> bool" where
  "string_property kvs k = (case map_of kvs k of Some v \<Rightarrow> is_string v | None \<Rightarrow> False)"

definition conforms_step :: "json \<Rightarrow> bool" where
  "conforms_step v =
     (case v of
        JObj kvs \<Rightarrow> list_all (string_property kvs) [''title'', ''explanation'', ''math'']
      | _ \<Rightarrow> False)"

definition conforms_schema :: "json \<Rightarrow> bool" where
  "conforms_schema v =
     (case v of
        JObj kvs \<Rightarrow>
          string_property kvs ''description''
          \<and> (case map_of kvs ''concepts'' of Some (JArr xs) \<Rightarrow> list_all is_string xs | _ \<Rightarrow> False)
          \<and> (case map_of kvs ''steps'' of Some (JArr xs) \<Rightarrow> list_all conforms_step xs | _ \<Rightarrow> False)
          \<and> string_property kvs ''finalAnswer''
          \<and> (case map_of kvs ''tutoringTip'' of None \<Rightarrow> True | Some t \<Rightarrow> is_string t)
      | _ \<Rightarrow> False)"

section \<open>Values of any type where the program expects a string\<close>

text \<open>
  The value that the client returns is used without a check, so the operators of the
  program meet JSON values of any type. This section gives what the runtime does with them:
  reading a property, truthiness, and the comparison \<open>x > 30\<close>, which converts \<open>x\<close> to a
  number.

  A number literal has the value \<open>m * 10^e\<close> of its digits \<open>m\<close> and its decimal exponent
  \<open>e\<close>. The runtime rounds it to the nearest double, a tie to the even one: the double is
  zero when the value is at most \<open>2^-1075\<close>, and it is greater than 30 when the value is
  greater than \<open>30 + 2^-49\<close>.
\<close>

text \<open>
  An unsigned decimal literal that is the whole text:
  \<open>digits* (. digits*)? ([eE] [+-]? digits+)?\<close> with a digit before the exponent.
\<close>

definition scan_decimal :: "string \<Rightarrow> (int \<times> int) option" where
  "scan_decimal s =
     (let i = takeWhile is_digit s;
          r1 = dropWhile is_digit s;
          f = (case r1 of [] \<Rightarrow> [] | c # r \<Rightarrow> if c = CHR ''.'' then takeWhile is_digit r else []);
          r2 = (case r1 of [] \<Rightarrow> [] | c # r \<Rightarrow> if c = CHR ''.'' then dropWhile is_digit r else r1);
          m = digits_value 10 (i @ f)
      in if i = [] \<and> f = [] then None
         else case r2 of
                [] \<Rightarrow> Some (m, - int (length f))
              | c # r \<Rightarrow>
                  if c = CHR ''e'' \<or> c = CHR ''E'' then
                    (let neg = (take 1 r = ''-'');
                         ds = (if take 1 r = ''-'' \<or> take 1 r = ''+'' then drop 1 r else r)
                     in if ds \<noteq> [] \<and> list_all is_digit ds
                        then Some (m, (if neg then - digits_value 10 ds
                                       else digits_value 10 ds) - int (length f))
                        else None)
                  else None)"

definition dec_is_zero :: "int \<Rightarrow> int \<Rightarrow> bool" where
  "dec_is_zero m e = (m = 0 \<or> (e < 0 \<and> m * 2 ^ 1075 \<le> 10 ^ nat (- e)))"

definition dec_gt_30 :: "int \<Rightarrow> int \<Rightarrow> bool" where
  "dec_gt_30 m e =
     (if 0 \<le> e then 30 * 2 ^ 49 + 1 < m * 10 ^ nat e * 2 ^ 49
      else (30 * 2 ^ 49 + 1) * 10 ^ nat (- e) < m * 2 ^ 49)"

text \<open>The number of a JSON number literal: is it zero, is it greater than 30.\<close>

definition number_is_zero :: "string \<Rightarrow> bool" where
  "number_is_zero l =
     (case scan_decimal (if take 1 l = ''-'' then drop 1 l else l) of
        None \<Rightarrow> False
      | Some (m, e) \<Rightarrow> dec_is_zero m e)"

definition number_gt_30 :: "string \<Rightarrow> bool" where
  "number_gt_30 l = (case scan_decimal l of None \<Rightarrow> False | Some (m, e) \<Rightarrow> dec_gt_30 m e)"

text \<open>
  The number that a string converts to, compared with 30: white space around it is
  dropped; a hexadecimal, octal or binary literal has no sign; a decimal literal may have
  one; \<open>Infinity\<close> is a literal; any other text is \<open>NaN\<close>, and the empty text is 0.
\<close>

definition is_js_space :: "char \<Rightarrow> bool" where
  "is_js_space c =
     (c = CHR 0x09 \<or> c = CHR 0x0A \<or> c = CHR 0x0B \<or> c = CHR 0x0C \<or> c = CHR 0x0D
      \<or> c = CHR 0x20 \<or> c = CHR 0xA0)"

definition trim :: "string \<Rightarrow> string" where
  "trim s = rev (dropWhile is_js_space (rev (dropWhile is_js_space s)))"

definition based_gt_30 :: "int \<Rightarrow> string \<Rightarrow> string \<Rightarrow> bool" where
  "based_gt_30 b allowed ds =
     (ds \<noteq> [] \<and> list_all (\<lambda>c. c \<in> set allowed) ds \<and> 30 < digits_value b ds)"

definition string_gt_30 :: "string \<Rightarrow> bool" where
  "string_gt_30 s =
     (let t = trim s in
      if take 2 t = ''0x'' \<or> take 2 t = ''0X''
        then based_gt_30 16 ''0123456789abcdefABCDEF'' (drop 2 t)
      else if take 2 t = ''0o'' \<or> take 2 t = ''0O'' then based_gt_30 8 ''01234567'' (drop 2 t)
      else if take 2 t = ''0b'' \<or> take 2 t = ''0B'' then based_gt_30 2 ''01'' (drop 2 t)
      else (let u = (if take 1 t = ''+'' then drop 1 t else t)
            in u = ''Infinity'' \<or> number_gt_30 u))"

text \<open>
  Converting an object to a primitive value calls its \<open>toString\<close>. An object that
  \<open>JSON.parse\<close> made has the one of its prototype, which gives \<open>[object Object]\<close>, unless it
  has a member of that name: that one is not a function, and the conversion throws a
  \<open>TypeError\<close>. An array joins the texts of its elements with commas, \<open>null\<close> giving the
  empty text.
\<close>

fun to_primitive_throws :: "json \<Rightarrow> bool" where
  "to_primitive_throws (JObj kvs) = (map_of kvs ''toString'' \<noteq> None)"
| "to_primitive_throws (JArr xs) = list_ex to_primitive_throws xs"
| "to_primitive_throws _ = False"

text \<open>
  \<open>x > 30\<close> for a value whose conversion does not throw. The text of an array of two or
  more elements has a comma and is no number; the text of an array of one element is the
  text of the element; \<open>null\<close>, \<open>false\<close>, \<open>true\<close> and the empty array are 0 or 1; the text of
  an object is no number.
\<close>

fun value_gt_30 :: "json \<Rightarrow> bool" where
  "value_gt_30 (JNum l) = number_gt_30 l"
| "value_gt_30 (JStr s) = string_gt_30 s"
| "value_gt_30 (JArr [x]) = value_gt_30 x"
| "value_gt_30 _ = False"

text \<open>\<open>x > 30\<close>, where \<open>None\<close> is \<open>undefined\<close>, which converts to \<open>NaN\<close>.\<close>

definition gt_30 :: "json option \<Rightarrow> error + bool" where
  "gt_30 x =
     (case x of
        None \<Rightarrow> Inr False
      | Some v \<Rightarrow> if to_primitive_throws v then Inl TypeError else Inr (value_gt_30 v))"

definition js_truthy :: "json \<Rightarrow> bool" where
  "js_truthy v =
     (case v of
        JNull \<Rightarrow> False
      | JBool b \<Rightarrow> b
      | JNum l \<Rightarrow> \<not> number_is_zero l
      | JStr s \<Rightarrow> s \<noteq> []
      | _ \<Rightarrow> True)"

text \<open>
  \<open>v.k\<close> for a key \<open>k\<close> that no prototype defines: the member of an object, undefined for
  any other value but \<open>null\<close>, whose properties cannot be read.
\<close>

definition property :: "json \<Rightarrow> string \<Rightarrow> error + json option" where
  "property v k =
     (case v of
        JNull \<Rightarrow> Inl TypeError
      | JObj kvs \<Rightarrow> Inr (map_of kvs k)
      | _ \<Rightarrow> Inr None)"

section \<open>The conversation controller (the App component)\<close>

text \<open>
  The state of the component and the durable store. \<open>history\<close> is typed
  \<open>ChatHistoryItem[]\<close>, but the value that \<open>JSON.parse\<close> gives for the stored text is put there
  as it is, so the model keeps it as a JSON value; the program never looks inside an
  entry. The store is a map from keys to texts that takes every write.

  A handler runs on the state of the latest render: React renders again after every event,
  so a handler sees what the events before it have left. A continuation after an \<open>await\<close>
  runs later: an update written as a function (\<open>setMessages(prev => ...)\<close>) applies to the
  state of that moment, while a variable it has closed over still has the value of the
  render that started the call.

  A reading of \<open>Date.now()\<close> is an input, and \<open>clk\<close> names the readings of one run of a
  handler or of a continuation by the place that takes them: 0 and 1 are the id and the
  timestamp of the message appended first, 2 and 3 those of the history entry, 4 and 5
  those of the fallback message appended after an error in the \<open>try\<close> block.
\<close>

record App =
  messages :: "Message list"
  inputValue :: string
  isSolving :: bool
  showDrawing :: bool
  selectedImage :: "string option"
  explanationLevel :: ExplanationLevel
  history :: json
  sidebarOpen :: bool
  localStorage :: "string \<Rightarrow> string option"

definition history_key :: string where
  "history_key = ''math_solver_history''"

definition initial :: "(string \<Rightarrow> string option) \<Rightarrow> App" where
  "initial store =
     \<lparr>messages = [], inputValue = [], isSolving = False, showDrawing = False,
      selectedImage = None, explanationLevel = standard, history = JArr [],
      sidebarOpen = False, localStorage = store\<rparr>"

text \<open>
  The effect that runs once after the first render:
  \<open>const saved = localStorage.getItem(key); if (saved) setHistory(JSON.parse(saved))\<close>.
\<close>

definition loadHistory :: "App \<Rightarrow> error + App" where
  "loadHistory s =
     (case localStorage s history_key of
        None \<Rightarrow> Inr s
      | Some saved \<Rightarrow>
          if saved \<noteq> [] then
            (case JSON_parse saved of
               None \<Rightarrow> Inl SyntaxError
             | Some v \<Rightarrow> Inr (s\<lparr>history := v\<rparr>))
          else Inr s)"

text \<open>
  \<open>[newItem, ...history]\<close> iterates \<open>history\<close>: the elements of an array, the characters of
  a string; any other JSON value is not iterable and the spread throws a \<open>TypeError\<close>.
\<close>

definition spread :: "json \<Rightarrow> json list option" where
  "spread v =
     (case v of
        JArr xs \<Rightarrow> Some xs
      | JStr cs \<Rightarrow> Some (map (\<lambda>c. JStr [c]) cs)
      | _ \<Rightarrow> None)"

text \<open>
  \<open>title.length > 30 ? title.substring(0, 30) + '...' : title\<close>. A string is cut. A number
  or a boolean has no \<open>length\<close>, and \<open>undefined > 30\<close> is false. An array has a \<open>length\<close>
  but no \<open>substring\<close>, and so has an object with a member \<open>length\<close>: calling what is not
  a function throws a \<open>TypeError\<close>, as reading \<open>length\<close> of \<open>null\<close> does.
\<close>

definition item_title :: "json \<Rightarrow> error + json" where
  "item_title ttl =
     (case ttl of
        JStr t \<Rightarrow> Inr (JStr (if length t > 30 then take 30 t @ ''...'' else t))
      | JArr xs \<Rightarrow> if length xs > 30 then Inl TypeError else Inr ttl
      | JObj kvs \<Rightarrow>
          (case gt_30 (map_of kvs ''length'') of
             Inl e \<Rightarrow> Inl e
           | Inr b \<Rightarrow> if b then Inl TypeError else Inr ttl)
      | JNull \<Rightarrow> Inl TypeError
      | _ \<Rightarrow> Inr ttl)"

definition newItem :: "json \<Rightarrow> json option \<Rightarrow> nat \<Rightarrow> nat \<Rightarrow> error + ChatHistoryItem" where
  "newItem ttl lastMsg t_id t_ts =
     (case item_title ttl of
        Inl e \<Rightarrow> Inl e
      | Inr t \<Rightarrow>
          Inr \<lparr>item_id = toString t_id,
               title = t,
               item_timestamp = t_ts,
               lastMessage = lastMsg\<rparr>)"

text \<open>
  \<open>saveToHistory\<close> reads the \<open>history\<close> of the render that made it, the argument \<open>h\<close>,
  not the state when it runs.
\<close>

definition saveToHistory ::
  "json \<Rightarrow> json \<Rightarrow> json option \<Rightarrow> nat \<Rightarrow> nat \<Rightarrow> App \<Rightarrow> error + App" where
  "saveToHistory h ttl lastMsg t_id t_ts s =
     (case newItem ttl lastMsg t_id t_ts of
        Inl e \<Rightarrow> Inl e
      | Inr it \<Rightarrow>
          (case spread h of
             None \<Rightarrow> Inl TypeError
           | Some xs \<Rightarrow>
               (let updated = JArr (take 20 (ChatHistoryItem_json it # xs))
                in Inr (s\<lparr>history := updated,
                          localStorage :=
                            (localStorage s)(history_key \<mapsto> JSON_stringify updated)\<rparr>))))"

text \<open>
  \<open>processSolution\<close> is asynchronous. Its first part runs to the \<open>await\<close> and leaves a
  pending call: the arguments of \<open>solveMathProblem\<close> and what the continuation has closed
  over. The second part runs when the call has settled, on the state of that moment.
\<close>

record Pending =
  p_text :: string
  p_level :: ExplanationLevel
  p_image :: "string option"
  p_history :: json

definition truthy :: "string option \<Rightarrow> string option" where
  "truthy x = (case x of None \<Rightarrow> None | Some i \<Rightarrow> if i \<noteq> [] then Some i else None)"

definition userMsg :: "string \<Rightarrow> string option \<Rightarrow> (nat \<Rightarrow> nat) \<Rightarrow> Message" where
  "userMsg txt img clk =
     \<lparr>msg_id = toString (clk 0),
      role = USER,
      content = (if txt \<noteq> [] then txt else ''Help me solve this image.''),
      msg_timestamp = clk 1,
      image = truthy img,
      msg_type = Some (if truthy img \<noteq> None then image_type else text_type),
      metadata = None\<rparr>"

definition processSolution ::
  "string \<Rightarrow> string option \<Rightarrow> (nat \<Rightarrow> nat) \<Rightarrow> App \<Rightarrow> App \<times> Pending option" where
  "processSolution txt img clk s =
     (if isSolving s then (s, None)
      else
        (s\<lparr>isSolving := True,
           messages := messages s @ [userMsg txt img clk],
           inputValue := [],
           selectedImage := None,
           showDrawing := False\<rparr>,
         Some \<lparr>p_text = txt, p_level = explanationLevel s, p_image = truthy img,
               p_history = history s\<rparr>))"

definition fallback_text :: string where
  "fallback_text =
     ''I ran into a problem calculation. Please check your connection or try a different question.''"

definition assistantMsg :: "json \<Rightarrow> nat \<Rightarrow> nat \<Rightarrow> Message" where
  "assistantMsg responseData t_id t_ts =
     \<lparr>msg_id = toString (t_id + 1),
      role = ASSISTANT,
      content = JSON_stringify responseData,
      msg_timestamp = t_ts,
      image = None,
      msg_type = None,
      metadata = Some responseData\<rparr>"

definition fallbackMsg :: "nat \<Rightarrow> nat \<Rightarrow> Message" where
  "fallbackMsg t_id t_ts =
     \<lparr>msg_id = toString (t_id + 1),
      role = ASSISTANT,
      content = fallback_text,
      msg_timestamp = t_ts,
      image = None,
      msg_type = None,
      metadata = None\<rparr>"

text \<open>
  The arguments of the call
  \<open>saveToHistory(responseData.description || text || "Math Problem", responseData.finalAnswer)\<close>:
  the description when it is truthy, whatever its type, else the text or the fixed title;
  and the final answer, which may be undefined. Reading a property of \<open>null\<close> throws.
\<close>

definition historyTitle :: "json option \<Rightarrow> string \<Rightarrow> json" where
  "historyTitle d txt =
     (case d of
        None \<Rightarrow> JStr (if txt \<noteq> [] then txt else ''Math Problem'')
      | Some v \<Rightarrow>
          if js_truthy v then v else JStr (if txt \<noteq> [] then txt else ''Math Problem''))"

definition historyArgs :: "json \<Rightarrow> string \<Rightarrow> error + json \<times> json option" where
  "historyArgs responseData txt =
     (case property responseData ''description'' of
        Inl e \<Rightarrow> Inl e
      | Inr d \<Rightarrow>
          (case property responseData ''finalAnswer'' of
             Inl e \<Rightarrow> Inl e
           | Inr a \<Rightarrow> Inr (historyTitle d txt, a)))"

text \<open>
  The continuation: the \<open>try\<close> block after the \<open>await\<close>, the \<open>catch\<close> and the \<open>finally\<close>.
  The awaited value is whatever JSON value the client returned. An error thrown while the
  history entry is made or saved is caught like a failed call, after the assistant message
  was appended.
\<close>

definition resume ::
  "Pending \<Rightarrow> error + json \<Rightarrow> (nat \<Rightarrow> nat) \<Rightarrow> App \<Rightarrow> App" where
  "resume p res clk s =
     (case res of
        Inl e \<Rightarrow>
          s\<lparr>messages := messages s @ [fallbackMsg (clk 0) (clk 1)], isSolving := False\<rparr>
      | Inr responseData \<Rightarrow>
          (let s1 = s\<lparr>messages := messages s @ [assistantMsg responseData (clk 0) (clk 1)]\<rparr>;
               caught = s1\<lparr>messages := messages s1 @ [fallbackMsg (clk 4) (clk 5)],
                          isSolving := False\<rparr>
           in case historyArgs responseData (p_text p) of
                Inl e \<Rightarrow> caught
              | Inr (ttl, lastMsg) \<Rightarrow>
                  (case saveToHistory (p_history p) ttl lastMsg (clk 2) (clk 3) s1 of
                     Inr s2 \<Rightarrow> s2\<lparr>isSolving := False\<rparr>
                   | Inl e \<Rightarrow> caught)))"

text \<open>A submission whose call settles before anything else happens.\<close>

definition submit ::
  "string \<Rightarrow> string option \<Rightarrow> (nat \<Rightarrow> nat) \<Rightarrow> error + json \<Rightarrow> (nat \<Rightarrow> nat) \<Rightarrow> App \<Rightarrow> App"
where
  "submit txt img clk res clk' s =
     (case processSolution txt img clk s of
        (s1, None) \<Rightarrow> s1
      | (s1, Some p) \<Rightarrow> resume p res clk' s1)"

text \<open>The two buttons: \<open>Clear All History\<close> in the sidebar, and the one in the header.\<close>

definition clearHistory :: "App \<Rightarrow> App" where
  "clearHistory s =
     s\<lparr>messages := [], history := JArr [],
       localStorage := (localStorage s)(history_key := None)\<rparr>"

definition clearConversation :: "App \<Rightarrow> App" where
  "clearConversation s = s\<lparr>messages := []\<rparr>"

section \<open>Notions used to state the properties\<close>

text \<open>
  A successful solve: a submission and the response its call returns, a response of the
  declared shape, with the readings of the clock of the two parts. \<open>entry_of\<close> is the
  history entry that it writes.
\<close>

type_synonym solve = "string \<times> string option \<times> (nat \<Rightarrow> nat) \<times> SolveResponse \<times> (nat \<Rightarrow> nat)"

definition solved :: "App \<Rightarrow> solve \<Rightarrow> App" where
  "solved s x =
     (case x of (txt, img, clk, r, clk') \<Rightarrow>
        submit txt img clk (Inr (SolveResponse_json r)) clk' s)"

definition entry_title :: "SolveResponse \<Rightarrow> string \<Rightarrow> string" where
  "entry_title r txt =
     (let t = (if description r \<noteq> [] then description r
               else if txt \<noteq> [] then txt
               else ''Math Problem'')
      in if length t > 30 then take 30 t @ ''...'' else t)"

definition entry_of :: "solve \<Rightarrow> json" where
  "entry_of x =
     (case x of (txt, img, clk, r, clk') \<Rightarrow>
        JObj [(''id'', JStr (toString (clk' 2))),
              (''title'', JStr (entry_title r txt)),
              (''timestamp'', JNum (toString (clk' 3))),
              (''lastMessage'', JStr (finalAnswer r))])"

text \<open>
  The parts of a split that are not matches: the first one and every second one after it.
\<close>

fun literal_parts :: "string list \<Rightarrow> string list" where
  "literal_parts [] = []"
| "literal_parts [p] = [p]"
| "literal_parts (p # m # ps) = p # literal_parts ps"


section \<open>Properties of the runtime model\<close>

lemma JSON_parse_empty_object: "JSON_parse ''{}'' = Some (JObj [])"
  by (simp add: JSON_parse_def is_ws_def is_digit_def)

lemma JSON_parse_empty_text: "JSON_parse [] = None"
  by (simp add: JSON_parse_def)

lemma JSON_parse_null: "JSON_parse ''null'' = Some JNull"
  by (simp add: JSON_parse_def is_ws_def is_digit_def)

lemma JSON_parse_21:
  "JSON_parse ''[1,2,3,4,5,6,7,8,9,10,11,12,13,14,15,16,17,18,19,20,21]''
     = Some (JArr [JNum ''1'', JNum ''2'', JNum ''3'', JNum ''4'', JNum ''5'', JNum ''6'',
                   JNum ''7'', JNum ''8'', JNum ''9'', JNum ''10'', JNum ''11'', JNum ''12'',
                   JNum ''13'', JNum ''14'', JNum ''15'', JNum ''16'', JNum ''17'', JNum ''18'',
                   JNum ''19'', JNum ''20'', JNum ''21''])"
  by code_simp











lemma stringify_object_not_fallback: "JSON_stringify (JObj kvs) \<noteq> fallback_text"
  by (simp add: fallback_text_def)

section \<open>Properties of the markup renderer\<close>

text \<open>The split loses nothing: the parts, put together, are the text.\<close>

lemma split_math_concat: "concat (split_math lit s) = lit @ s"
  by (induction lit s rule: split_math.induct) (auto split: option.splits)

text \<open>A text without a dollar sign is one literal part.\<close>

lemma split_math_no_dollar:
  assumes "CHR ''$'' \<notin> set s"
  shows "split_math lit s = [lit @ s]"
  using assms
proof (induction lit s rule: split_math.induct)
  case (1 lit)
  then show ?case by simp
next
  case (2 lit c cs)
  then have "match_here (c # cs) = None"
    by (auto simp: match_here_def match_block_def match_inline_def split: option.splits)
  with 2 show ?case by simp
qed

lemma match_here_None_dollar:
  assumes "match_here (c # cs) = None" "c = CHR ''$''"
  shows "CHR ''$'' \<notin> set cs"
proof -
  have "find_dollar cs = None"
    using assms by (auto simp: match_here_def match_inline_def split: option.splits)
  moreover have "find_dollar xs = None \<Longrightarrow> CHR ''$'' \<notin> set xs" for xs
    by (induction xs) (auto split: if_splits)
  ultimately show ?thesis by blast
qed

lemma literal_parts_dollars:
  assumes "count_list lit (CHR ''$'') \<le> 1"
    and "CHR ''$'' \<in> set lit \<longrightarrow> CHR ''$'' \<notin> set s"
  shows "list_all (\<lambda>p. count_list p (CHR ''$'') \<le> 1) (literal_parts (split_math lit s))"
  using assms
proof (induction lit s rule: split_math.induct)
  case (1 lit)
  then show ?case by simp
next
  case (2 lit c cs)
  show ?case
  proof (cases "match_here (c # cs)")
    case None
    have "count_list (lit @ [c]) (CHR ''$'') \<le> 1"
      using 2(3,4) by (auto simp: count_list_0_iff)
    moreover have "CHR ''$'' \<in> set (lit @ [c]) \<longrightarrow> CHR ''$'' \<notin> set cs"
      using 2(4) match_here_None_dollar [OF None] by auto
    ultimately show ?thesis
      using 2(1) [OF None] None by simp
  next
    case (Some n)
    have "list_all (\<lambda>p. count_list p (CHR ''$'') \<le> 1)
            (literal_parts (split_math [] (drop n (c # cs))))"
      using 2(2) [OF Some] by simp
    moreover have "CHR ''$'' \<in> set (c # cs)"
      using Some by (auto simp: match_here_def match_block_def match_inline_def
                          split: option.splits if_splits)
    ultimately show ?thesis
      using Some 2(3,4) by (auto simp: count_list_0_iff)
  qed
qed

lemma render_part_literal:
  assumes "count_list p (CHR ''$'') \<le> 1" "p \<noteq> ''$''"
  shows "render_part p = Literal p"
proof -
  have "\<not> (startsWith p ''$'' \<and> endsWith p ''$'')"
  proof
    assume h: "startsWith p ''$'' \<and> endsWith p ''$''"
    then obtain q where p: "p = CHR ''$'' # q"
      by (cases p) (auto simp: startsWith_def)
    with assms(2) have "q \<noteq> []" by simp
    have "drop (length xs - 1) xs = [last xs]" if "xs \<noteq> []" for xs :: string
      using that by (induction xs rule: rev_induct) simp_all
    from this [of p] have "drop (length q) (CHR ''$'' # q) = [last q]"
      using p \<open>q \<noteq> []\<close> by simp
    with h p have "last q = CHR ''$''"
      by (simp add: endsWith_def)
    with \<open>q \<noteq> []\<close> have "CHR ''$'' \<in> set q"
      using last_in_set by metis
    then have "0 < count_list q (CHR ''$'')"
      using count_list_0_iff [of q "CHR ''$''"] by (cases "count_list q (CHR ''$'')") auto
    with assms(1) p show False by simp
  qed
  moreover have "\<not> startsWith p ''$$''"
  proof
    assume "startsWith p ''$$''"
    then obtain q where "p = CHR ''$'' # CHR ''$'' # q"
      by (cases p; cases "tl p") (auto simp: startsWith_def)
    with assms(1) show False by simp
  qed
  ultimately show ?thesis
    by (simp add: render_part_def)
qed

text \<open>
  Every part of the split that is not a match becomes literal text, unless it is the
  single character \<open>$\<close>.
\<close>

lemma non_delimited_spans:
  "list_all (\<lambda>p. render_part p = Literal p \<or> p = ''$'') (literal_parts (split_math [] tex))"
proof -
  have "list_all (\<lambda>p. count_list p (CHR ''$'') \<le> 1) (literal_parts (split_math [] tex))"
    by (rule literal_parts_dollars) simp_all
  then show ?thesis
    by (rule list.pred_mono_strong) (use render_part_literal in blast)
qed

text \<open>The two examples of the specification.\<close>

lemma MathRenderer_inline_example:
  "MathRenderer ''Solve $x+1=2$ now''
     = [Literal ''Solve '', InlineMath ''x+1=2'', Literal '' now'']"
  by code_simp

lemma MathRenderer_unmatched_example: "MathRenderer ''$x+1'' = [Literal ''$x+1'']"
  by code_simp

text \<open>
  Claim C8. The two examples hold, and every part that is not a match is kept as literal
  text, with one exception. A part is taken for math when it starts and ends with a dollar
  sign, and the part \<open>$\<close> does: a dollar sign that no other one closes, alone at the end
  of the text or as the whole text, is not kept as literal text. It is handed to the
  typesetter as inline math with empty content.
\<close>

theorem C8_lone_dollar_is_typeset:
  "MathRenderer ''$'' = [InlineMath []]
   \<and> MathRenderer ''$x$$'' = [Literal [], InlineMath ''x'', InlineMath []]"
  by code_simp

section \<open>Properties of the solve request client\<close>

lemma split_comma_unfold:
  "split_comma s =
     takeWhile (\<lambda>c. c \<noteq> CHR '','') s
     # (if CHR '','' \<in> set s then split_comma (tl (dropWhile (\<lambda>c. c \<noteq> CHR '','') s)) else [])"
  by (induction s) (auto split: list.splits)

lemma split_comma_hd: "hd (split_comma s) = takeWhile (\<lambda>c. c \<noteq> CHR '','') s"
  by (subst split_comma_unfold) simp

lemma split_comma_tl:
  "tl (split_comma s) =
     (if CHR '','' \<in> set s then split_comma (tl (dropWhile (\<lambda>c. c \<noteq> CHR '','') s)) else [])"
  by (subst split_comma_unfold) simp

lemma split_comma_not_Nil: "split_comma s \<noteq> []"
  by (subst split_comma_unfold) simp

text \<open>
  \<open>image.split(',')[1] || image\<close> is the piece between the first comma and the second, when
  there is a comma and the piece is not empty, and the image otherwise.
\<close>

lemma base64Data_eq:
  "base64Data img =
     (let seg = takeWhile (\<lambda>c. c \<noteq> CHR '','') (tl (dropWhile (\<lambda>c. c \<noteq> CHR '','') img))
      in if CHR '','' \<in> set img \<and> seg \<noteq> [] then seg else img)"
proof -
  define r where "r = tl (dropWhile (\<lambda>c. c \<noteq> CHR '','') img)"
  have d: "drop 1 (split_comma img) = (if CHR '','' \<in> set img then split_comma r else [])"
    by (simp add: drop_Suc split_comma_tl r_def)
  obtain p ps where ps: "split_comma r = p # ps"
    using split_comma_not_Nil [of r] by (cases "split_comma r") auto
  have "p = takeWhile (\<lambda>c. c \<noteq> CHR '','') r"
    using split_comma_hd [of r] ps by simp
  then show ?thesis
    using d ps by (simp add: base64Data_def r_def [symmetric])
qed

lemma base64Data_one_comma:
  assumes "CHR '','' \<notin> set a" "CHR '','' \<notin> set b" "b \<noteq> []"
  shows "base64Data (a @ '','' @ b) = b"
proof -
  have "dropWhile (\<lambda>c. c \<noteq> CHR '','') (a @ '','' @ b) = '','' @ b"
    using assms(1) by (induction a) auto
  then have r: "tl (dropWhile (\<lambda>c. c \<noteq> CHR '','') (a @ '','' @ b)) = b"
    by simp
  have t: "takeWhile (\<lambda>c. c \<noteq> CHR '','') b = b"
    using assms(2) by (induction b) auto
  show ?thesis
    unfolding base64Data_eq r Let_def t using assms(3) by simp
qed

text \<open>
  Claim C4, as stated, fails. When the response has no text, or an empty one, the client
  parses the default \<open>{}\<close> and returns the empty object: a success whose value has none of
  the required properties.
\<close>

theorem C4_counterexample:
  "solveMathProblem (\<lambda>_. Response None) ''2+2'' standard None = Inr (JObj [])
   \<and> solveMathProblem (\<lambda>_. Response (Some [])) ''2+2'' standard None = Inr (JObj [])
   \<and> \<not> conforms_schema (JObj [])"
  by (simp add: solveMathProblem_def text_or_default_def JSON_parse_empty_object
                conforms_schema_def string_property_def)

text \<open>
  Claim C4, amended. The client fails when the call to the backend throws, with the error
  thrown, and when the text of the response, or \<open>{}\<close> in place of an absent or empty text,
  is not JSON. Otherwise it returns the parsed value as it is: the shape is not checked.
  An absent or empty text gives the empty object, and the text \<open>null\<close> gives \<open>null\<close>.
\<close>

theorem C4_parsing_is_the_only_check:
  "(backend (request input lvl img) = Throws e \<longrightarrow>
      solveMathProblem backend input lvl img = Inl e)
   \<and> (backend (request input lvl img) = Response t \<and> JSON_parse (text_or_default t) = None \<longrightarrow>
        solveMathProblem backend input lvl img = Inl SyntaxError)
   \<and> (backend (request input lvl img) = Response t \<and> JSON_parse (text_or_default t) = Some v \<longrightarrow>
        solveMathProblem backend input lvl img = Inr v)
   \<and> (backend (request input lvl img) = Response t \<and> (t = None \<or> t = Some []) \<longrightarrow>
        solveMathProblem backend input lvl img = Inr (JObj []))
   \<and> (backend (request input lvl img) = Response (Some ''null'') \<longrightarrow>
        solveMathProblem backend input lvl img = Inr JNull)"
  by (auto simp: solveMathProblem_def text_or_default_def JSON_parse_empty_object JSON_parse_null)

theorem C4_witness:
  "solveMathProblem (\<lambda>_. Throws (ApiError ''503'')) ''2+2'' standard None = Inl (ApiError ''503'')
   \<and> JSON_parse (text_or_default (Some ''{'')) = None
   \<and> solveMathProblem (\<lambda>_. Response (Some ''{'')) ''2+2'' standard None = Inl SyntaxError
   \<and> JSON_parse (text_or_default (Some ''[1,2,3,4,5,6,7,8,9,10,11,12,13,14,15,16,17,18,19,20,21]''))
       = Some (JArr [JNum ''1'', JNum ''2'', JNum ''3'', JNum ''4'', JNum ''5'', JNum ''6'',
                     JNum ''7'', JNum ''8'', JNum ''9'', JNum ''10'', JNum ''11'', JNum ''12'',
                     JNum ''13'', JNum ''14'', JNum ''15'', JNum ''16'', JNum ''17'',
                     JNum ''18'', JNum ''19'', JNum ''20'', JNum ''21''])
   \<and> solveMathProblem
         (\<lambda>_. Response (Some ''[1,2,3,4,5,6,7,8,9,10,11,12,13,14,15,16,17,18,19,20,21]''))
         ''2+2'' standard None
       = Inr (JArr [JNum ''1'', JNum ''2'', JNum ''3'', JNum ''4'', JNum ''5'', JNum ''6'',
                    JNum ''7'', JNum ''8'', JNum ''9'', JNum ''10'', JNum ''11'', JNum ''12'',
                    JNum ''13'', JNum ''14'', JNum ''15'', JNum ''16'', JNum ''17'',
                    JNum ''18'', JNum ''19'', JNum ''20'', JNum ''21''])
   \<and> solveMathProblem (\<lambda>_. Response None) ''2+2'' standard None = Inr (JObj [])
   \<and> solveMathProblem (\<lambda>_. Response (Some ''null'')) ''2+2'' standard None = Inr JNull"
  using C4_parsing_is_the_only_check
          [of "\<lambda>_. Throws (ApiError ''503'')" "''2+2''" standard None "ApiError ''503''"]
        C4_parsing_is_the_only_check
          [of "\<lambda>_. Response (Some ''{'')" "''2+2''" standard None _ "Some ''{''"]
        C4_parsing_is_the_only_check
          [of "\<lambda>_. Response (Some ''[1,2,3,4,5,6,7,8,9,10,11,12,13,14,15,16,17,18,19,20,21]'')"
              "''2+2''" standard None _
              "Some ''[1,2,3,4,5,6,7,8,9,10,11,12,13,14,15,16,17,18,19,20,21]''"
              "JArr [JNum ''1'', JNum ''2'', JNum ''3'', JNum ''4'', JNum ''5'', JNum ''6'',
                     JNum ''7'', JNum ''8'', JNum ''9'', JNum ''10'', JNum ''11'', JNum ''12'',
                     JNum ''13'', JNum ''14'', JNum ''15'', JNum ''16'', JNum ''17'',
                     JNum ''18'', JNum ''19'', JNum ''20'', JNum ''21'']"]
        C4_parsing_is_the_only_check [of "\<lambda>_. Response None" "''2+2''" standard None _ None]
        C4_parsing_is_the_only_check
          [of "\<lambda>_. Response (Some ''null'')" "''2+2''" standard None]
        JSON_parse_21
  by (simp add: text_or_default_def JSON_parse_def is_ws_def is_digit_def)

text \<open>
  Claim C10, as stated, fails on an image text with two commas: what is sent is the piece
  between the first comma and the second, not everything after the first comma.
\<close>

theorem C10_counterexample:
  "parts (request [] standard (Some ''data:image/png;base64,AAAA,BBBB''))
     = [InlineData ''image/png'' ''AAAA'',
        TextPart ''Please solve this math problem step-by-step.'']
   \<and> tl (dropWhile (\<lambda>c. c \<noteq> CHR '','') ''data:image/png;base64,AAAA,BBBB'') = ''AAAA,BBBB''"
  by (simp add: request_def contents_def base64Data_def prompt_def)

text \<open>
  Claim C10, amended. For every non-empty image text the request has one image part, always
  with the MIME type \<open>image/png\<close>, before the text part. Its data is the piece between the
  first comma and the second one (or the end), when the image text has a comma and that
  piece is not empty, and the whole image text otherwise. So for a text with exactly one
  comma and something behind it, as a data URL is, the data is what follows the comma.
  For an empty or absent image text no image part is sent.
\<close>

theorem C10_image_part:
  "(img \<noteq> [] \<longrightarrow>
      parts (request input lvl (Some img))
        = [InlineData ''image/png''
             (let seg = takeWhile (\<lambda>c. c \<noteq> CHR '','') (tl (dropWhile (\<lambda>c. c \<noteq> CHR '','') img))
              in if CHR '','' \<in> set img \<and> seg \<noteq> [] then seg else img),
           TextPart (prompt input)])
   \<and> (CHR '','' \<notin> set a \<and> CHR '','' \<notin> set b \<and> b \<noteq> [] \<longrightarrow>
        parts (request input lvl (Some (a @ '','' @ b)))
          = [InlineData ''image/png'' b, TextPart (prompt input)])
   \<and> parts (request input lvl (Some [])) = [TextPart (prompt input)]
   \<and> parts (request input lvl None) = [TextPart (prompt input)]"
proof -
  have 1: "parts (request input lvl (Some img))
        = [InlineData ''image/png''
             (let seg = takeWhile (\<lambda>c. c \<noteq> CHR '','') (tl (dropWhile (\<lambda>c. c \<noteq> CHR '','') img))
              in if CHR '','' \<in> set img \<and> seg \<noteq> [] then seg else img),
           TextPart (prompt input)]"
    if "img \<noteq> []"
    using that unfolding request_def contents_def base64Data_eq [symmetric] by simp
  have 2: "parts (request input lvl (Some (a @ '','' @ b)))
          = [InlineData ''image/png'' b, TextPart (prompt input)]"
    if "CHR '','' \<notin> set a" "CHR '','' \<notin> set b" "b \<noteq> []"
    unfolding request_def contents_def using base64Data_one_comma [OF that] by simp
  have 3: "parts (request input lvl (Some [])) = [TextPart (prompt input)]"
    by (simp add: request_def contents_def)
  have 4: "parts (request input lvl None) = [TextPart (prompt input)]"
    by (simp add: request_def contents_def)
  from 1 2 3 4 show ?thesis by blast
qed

theorem C10_witness:
  "''data:image/png;base64,iVBORw0KGgo='' \<noteq> []
   \<and> CHR '','' \<notin> set ''data:image/png;base64''
   \<and> CHR '','' \<notin> set ''iVBORw0KGgo=''
   \<and> parts (request ''2+2'' quick (Some ''data:image/png;base64,iVBORw0KGgo=''))
       = [InlineData ''image/png'' ''iVBORw0KGgo='', TextPart ''2+2'']"
  using C10_image_part [of "''data:image/png;base64,iVBORw0KGgo=''" "''2+2''" quick
                           "''data:image/png;base64''" "''iVBORw0KGgo=''"]
  by (simp add: prompt_def)

section \<open>Properties of the conversation controller\<close>

text \<open>
  Claim C1. In every state in which \<open>isSolving\<close> is true, \<open>processSolution\<close> returns at once:
  the state is the same, no message is appended and no call is left pending, so the
  submission is neither queued nor answered with an error. The same holds for any sequence
  of submissions made while the flag is set.
  The flag is set by a submission that is accepted, and it is cleared when the call of that
  submission has settled, whatever its result.
\<close>

theorem C1_submission_while_solving_is_dropped:
  assumes "isSolving s"
  shows "processSolution txt img clk s = (s, None)
         \<and> submit txt img clk res clk' s = s
         \<and> foldl (\<lambda>a (t, i, c). fst (processSolution t i c a)) s subs = s
         \<and> (\<not> isSolving s0 \<longrightarrow> isSolving (fst (processSolution txt img clk s0)))
         \<and> \<not> isSolving (resume p res clk' s1)"
proof -
  have one: "\<And>t i c. processSolution t i c s = (s, None)"
    using assms by (simp add: processSolution_def)
  have "foldl (\<lambda>a (t, i, c). fst (processSolution t i c a)) s subs = s"
    by (induction subs) (simp_all add: one split: prod.splits)
  moreover have "isSolving (fst (processSolution txt img clk s0))"
    by (simp add: processSolution_def)
  moreover have "\<not> isSolving (resume p res clk' s1)"
    by (cases res) (simp_all add: resume_def Let_def split: sum.splits prod.splits)
  ultimately show ?thesis
    using one by (simp add: submit_def)
qed

theorem C1_witness:
  "isSolving ((initial Map.empty)\<lparr>isSolving := True\<rparr>)
   \<and> processSolution ''2+2'' None (\<lambda>_. 0) ((initial Map.empty)\<lparr>isSolving := True\<rparr>)
       = ((initial Map.empty)\<lparr>isSolving := True\<rparr>, None)
   \<and> messages (foldl (\<lambda>a (t, i, c). fst (processSolution t i c a))
        ((initial Map.empty)\<lparr>isSolving := True\<rparr>)
        [(''1+1'', None, \<lambda>_. 1), ([], Some ''data:image/png;base64,AAAA'', \<lambda>_. 2)]) = []
   \<and> \<not> isSolving (initial Map.empty)
   \<and> isSolving (fst (processSolution ''2+2'' None (\<lambda>_. 0) (initial Map.empty)))"
  using C1_submission_while_solving_is_dropped
          [of "(initial Map.empty)\<lparr>isSolving := True\<rparr>" "''2+2''" None "\<lambda>_. 0"
              "Inl SyntaxError" "\<lambda>_. 0"
              "[(''1+1'', None, \<lambda>_. 1), ([], Some ''data:image/png;base64,AAAA'', \<lambda>_. 2)]"
              "initial Map.empty"]
  by (simp add: initial_def)

text \<open>
  Claim C2. When the call of a submission fails, whatever the error, the message log is
  the log before the submission followed by the user message and one assistant message:
  two messages more. The assistant message has the fixed fallback text, which starts with
  "I ran into a problem calculation", and no metadata. Afterwards \<open>isSolving\<close> is false, and
  the history and the store are what they were. The continuation of a failed call does the
  same on whatever state it finds when the call settles.
\<close>

theorem C2_failed_solve:
  assumes "\<not> isSolving s"
  shows "messages (submit txt img clk (Inl e) clk' s)
           = messages s @ [userMsg txt img clk, fallbackMsg (clk' 0) (clk' 1)]
         \<and> length (messages (submit txt img clk (Inl e) clk' s)) = length (messages s) + 2
         \<and> role (userMsg txt img clk) = USER
         \<and> role (fallbackMsg (clk' 0) (clk' 1)) = ASSISTANT
         \<and> content (fallbackMsg (clk' 0) (clk' 1)) = fallback_text
         \<and> startsWith fallback_text ''I ran into a problem calculation''
         \<and> metadata (fallbackMsg (clk' 0) (clk' 1)) = None
         \<and> \<not> isSolving (submit txt img clk (Inl e) clk' s)
         \<and> history (submit txt img clk (Inl e) clk' s) = history s
         \<and> localStorage (submit txt img clk (Inl e) clk' s) = localStorage s
         \<and> messages (resume p (Inl e) clk' s1) = messages s1 @ [fallbackMsg (clk' 0) (clk' 1)]
         \<and> \<not> isSolving (resume p (Inl e) clk' s1)
         \<and> history (resume p (Inl e) clk' s1) = history s1
         \<and> localStorage (resume p (Inl e) clk' s1) = localStorage s1"
  using assms
  by (simp add: submit_def processSolution_def resume_def userMsg_def fallbackMsg_def
                startsWith_def fallback_text_def)

theorem C2_witness:
  "\<not> isSolving (initial Map.empty)
   \<and> map role (messages (submit ''2+2'' None (\<lambda>_. 5) (Inl (ApiError ''offline'')) (\<lambda>_. 7)
                  (initial Map.empty))) = [USER, ASSISTANT]
   \<and> map content (messages (submit ''2+2'' None (\<lambda>_. 5) (Inl (ApiError ''offline'')) (\<lambda>_. 7)
                  (initial Map.empty))) = [''2+2'', fallback_text]
   \<and> map metadata (messages (submit ''2+2'' None (\<lambda>_. 5) (Inl (ApiError ''offline'')) (\<lambda>_. 7)
                  (initial Map.empty))) = [None, None]
   \<and> history (submit ''2+2'' None (\<lambda>_. 5) (Inl (ApiError ''offline'')) (\<lambda>_. 7)
                  (initial Map.empty)) = JArr []"
  using C2_failed_solve [of "initial Map.empty" "''2+2''" None "\<lambda>_. 5" "ApiError ''offline''"
                            "\<lambda>_. 7"
                            "\<lparr>p_text = ''2+2'', p_level = standard, p_image = None,
                              p_history = JArr []\<rparr>"
                            "initial Map.empty"]
  by (simp add: initial_def userMsg_def fallbackMsg_def)

text \<open>
  Claim C6. The title of the history entry that \<open>saveToHistory\<close> builds: for a title string
  of more than 30 characters it is the first 30 characters followed by three dots, 33
  characters in all; a title string of at most 30 characters is stored as it is.
  The entry is the first one of the history that \<open>saveToHistory\<close> sets.
\<close>

theorem C6_title_truncation:
  "(30 < length t \<longrightarrow>
      map_sum id title (newItem (JStr t) lastMsg t_id t_ts) = Inr (JStr (take 30 t @ ''...''))
      \<and> length (take 30 t @ ''...'') = 33)
   \<and> (length t \<le> 30 \<longrightarrow>
        map_sum id title (newItem (JStr t) lastMsg t_id t_ts) = Inr (JStr t))
   \<and> map_sum id ChatHistoryItem_json (newItem (JStr t) lastMsg t_id t_ts)
       = Inr (JObj ([(''id'', JStr (toString t_id)),
                     (''title'', JStr (if 30 < length t then take 30 t @ ''...'' else t)),
                     (''timestamp'', JNum (toString t_ts))]
                    @ (case lastMsg of None \<Rightarrow> [] | Some v \<Rightarrow> [(''lastMessage'', v)])))
   \<and> (spread h = Some old \<longrightarrow>
        map_sum id history (saveToHistory h (JStr t) lastMsg t_id t_ts s)
          = Inr (JArr (take 20
                   (JObj ([(''id'', JStr (toString t_id)),
                           (''title'', JStr (if 30 < length t then take 30 t @ ''...'' else t)),
                           (''timestamp'', JNum (toString t_ts))]
                          @ (case lastMsg of None \<Rightarrow> [] | Some v \<Rightarrow> [(''lastMessage'', v)]))
                    # old))))"
  by (simp add: newItem_def item_title_def ChatHistoryItem_json_def saveToHistory_def)

theorem C6_witness:
  "30 < length ''Find the derivative of x^2 + 3x''
   \<and> map_sum id title
         (newItem (JStr ''Find the derivative of x^2 + 3x'') (Some (JStr ''$2x + 3$'')) 1 2)
       = Inr (JStr ''Find the derivative of x^2 + 3...'')
   \<and> length ''Solve the equation 2x + 5 = 15'' \<le> 30
   \<and> map_sum id title
         (newItem (JStr ''Solve the equation 2x + 5 = 15'') (Some (JStr ''$x = 5$'')) 1 2)
       = Inr (JStr ''Solve the equation 2x + 5 = 15'')
   \<and> spread (JArr [JNull]) = Some [JNull]
   \<and> map_sum id history
         (saveToHistory (JArr [JNull]) (JStr ''Find the derivative of x^2 + 3x'')
            (Some (JStr ''$2x + 3$'')) 1 2 (initial Map.empty))
       = Inr (JArr [JObj [(''id'', JStr ''1''),
                          (''title'', JStr ''Find the derivative of x^2 + 3...''),
                          (''timestamp'', JNum ''2''),
                          (''lastMessage'', JStr ''$2x + 3$'')],
                    JNull])"
  using C6_title_truncation
          [of "''Find the derivative of x^2 + 3x''" "Some (JStr ''$2x + 3$'')" 1 2
              "JArr [JNull]" "[JNull]" "initial Map.empty"]
        C6_title_truncation
          [of "''Solve the equation 2x + 5 = 15''" "Some (JStr ''$x = 5$'')" 1 2]
  by (simp add: spread_def toString.simps)

text \<open>
  Claim C7. The button \<open>Clear All History\<close> leaves an empty message log, an empty history
  and no entry under the key of the store, so that a load finds nothing. The button that
  clears the conversation leaves an empty message log, and the history and the store as
  they were.
\<close>

theorem C7_clear_buttons:
  "messages (clearHistory s) = []
   \<and> history (clearHistory s) = JArr []
   \<and> localStorage (clearHistory s) history_key = None
   \<and> messages (clearConversation s) = []
   \<and> history (clearConversation s) = history s
   \<and> localStorage (clearConversation s) = localStorage s
   \<and> loadHistory (clearHistory s) = Inr (clearHistory s)"
  by (simp add: clearHistory_def clearConversation_def loadHistory_def)


text \<open>
  For a response of the declared shape the arguments of \<open>saveToHistory\<close> are strings, and
  the entry is made.
\<close>

lemma historyArgs_declared:
  "historyArgs (SolveResponse_json r) txt
     = Inr (JStr (if description r \<noteq> [] then description r
                  else if txt \<noteq> [] then txt
                  else ''Math Problem''),
            Some (JStr (finalAnswer r)))"
  by (simp add: historyArgs_def property_def SolveResponse_json_def historyTitle_def
                js_truthy_def)

lemma solved_step:
  assumes "history s = JArr h" "\<not> isSolving s"
  shows "history (solved s x) = JArr (take 20 (entry_of x # h))"
    and "\<not> isSolving (solved s x)"
    and "localStorage (solved s x) history_key = Some (JSON_stringify (history (solved s x)))"
  using assms
  by (auto simp: solved_def submit_def processSolution_def resume_def historyArgs_declared
                 saveToHistory_def newItem_def item_title_def ChatHistoryItem_json_def
                 spread_def entry_of_def entry_title_def Let_def
           split: prod.splits)

lemma take_Cons_take: "take n (e # take n ys) = take n (e # ys)"
  by (cases n) (simp_all add: min_def)

lemma solves_invariant:
  assumes "history s = JArr h" "\<not> isSolving s" "length h \<le> 20"
  shows "history (foldl solved s xs) = JArr (take 20 (rev (map entry_of xs) @ h))
         \<and> \<not> isSolving (foldl solved s xs)"
proof (induction xs rule: rev_induct)
  case Nil
  then show ?case using assms by simp
next
  case (snoc x xs)
  let ?s = "foldl solved s xs"
  have "history (solved ?s x) = JArr (take 20 (entry_of x # take 20 (rev (map entry_of xs) @ h)))"
    using snoc solved_step(1) by blast
  also have "\<dots> = JArr (take 20 (entry_of x # rev (map entry_of xs) @ h))"
    by (simp only: take_Cons_take)
  finally have "history (foldl solved s (xs @ [x]))
                  = JArr (take 20 (rev (map entry_of (xs @ [x])) @ h))"
    by simp
  moreover have "\<not> isSolving (foldl solved s (xs @ [x]))"
    using snoc solved_step(2) by simp
  ultimately show ?case by blast
qed




text \<open>
  Claim C5. Start from a history of at most 20 entries, with no call pending. One
  successful solve puts its entry in front and keeps the first 20. After any sequence of
  successful solves the history is the entries of the solves, the newest first, followed
  by the old history, cut to the first 20: never more than 20 entries, the oldest dropped
  first, and after 20 solves or more exactly the entries of the 20 latest. The store holds
  the JSON text of that list.
\<close>

theorem C5_history_cap:
  assumes "history s = JArr h" "length h \<le> 20" "\<not> isSolving s"
  shows "history (solved s x) = JArr (take 20 (entry_of x # h))
         \<and> history (foldl solved s xs) = JArr (take 20 (rev (map entry_of xs) @ h))
         \<and> length (take 20 (rev (map entry_of xs) @ h)) \<le> 20
         \<and> (20 \<le> length xs \<longrightarrow>
              history (foldl solved s xs) = JArr (take 20 (rev (map entry_of xs))))
         \<and> (xs \<noteq> [] \<longrightarrow>
              localStorage (foldl solved s xs) history_key
                = Some (JSON_stringify (JArr (take 20 (rev (map entry_of xs) @ h)))))"
proof -
  have inv: "history (foldl solved s ys) = JArr (take 20 (rev (map entry_of ys) @ h))
             \<and> \<not> isSolving (foldl solved s ys)" for ys
    using solves_invariant [OF assms(1) assms(3) assms(2)] .
  have store: "localStorage (foldl solved s xs) history_key
                = Some (JSON_stringify (JArr (take 20 (rev (map entry_of xs) @ h))))"
    if ne: "xs \<noteq> []"
  proof -
    obtain ys y where xs: "xs = ys @ [y]"
      using ne by (cases xs rule: rev_exhaust) auto
    have "localStorage (solved (foldl solved s ys) y) history_key
            = Some (JSON_stringify (history (solved (foldl solved s ys) y)))"
      using solved_step(3) inv [of ys] by blast
    then show ?thesis
      using inv [of xs] by (simp add: xs)
  qed
  show ?thesis
    using solved_step(1) [OF assms(1) assms(3)] inv [of xs] store by simp
qed

theorem C5_witness:
  \<open>history (initial Map.empty) = JArr []
   \<and> \<not> isSolving (initial Map.empty)
   \<and> history (foldl solved (initial Map.empty)
        [(''2+2'', None, \<lambda>_. 10,
          \<lparr>description = ''Add 2 and 2'', concepts = [''Addition''],
           steps = [\<lparr>step_title = ''Add'', step_explanation = ''Sum the numbers'',
                    step_math = ''$2+2=4$''\<rparr>],
           finalAnswer = ''$4$'', tutoringTip = None\<rparr>, \<lambda>i. 12 + i),
         ([], Some ''data:image/png;base64,AAAA'', \<lambda>_. 20,
          \<lparr>description = [], concepts = [], steps = [], finalAnswer = ''$x = 5$'',
           tutoringTip = Some ''Isolate x''\<rparr>, \<lambda>i. 22 + i)])
       = JArr [JObj [(''id'', JStr ''24''), (''title'', JStr ''Math Problem''),
                     (''timestamp'', JNum ''25''), (''lastMessage'', JStr ''$x = 5$'')],
               JObj [(''id'', JStr ''14''), (''title'', JStr ''Add 2 and 2''),
                     (''timestamp'', JNum ''15''), (''lastMessage'', JStr ''$4$'')]]
   \<and> localStorage (foldl solved (initial Map.empty)
        [(''2+2'', None, \<lambda>_. 10,
          \<lparr>description = ''Add 2 and 2'', concepts = [''Addition''],
           steps = [\<lparr>step_title = ''Add'', step_explanation = ''Sum the numbers'',
                    step_math = ''$2+2=4$''\<rparr>],
           finalAnswer = ''$4$'', tutoringTip = None\<rparr>, \<lambda>i. 12 + i),
         ([], Some ''data:image/png;base64,AAAA'', \<lambda>_. 20,
          \<lparr>description = [], concepts = [], steps = [], finalAnswer = ''$x = 5$'',
           tutoringTip = Some ''Isolate x''\<rparr>, \<lambda>i. 22 + i)]) history_key
       = Some ''[{"id":"24","title":"Math Problem","timestamp":25,"lastMessage":"$x = 5$"},{"id":"14","title":"Add 2 and 2","timestamp":15,"lastMessage":"$4$"}]''\<close>
  using C5_history_cap [of "initial Map.empty" "[]" _
        "[(''2+2'', None, \<lambda>_. 10,
          \<lparr>description = ''Add 2 and 2'', concepts = [''Addition''],
           steps = [\<lparr>step_title = ''Add'', step_explanation = ''Sum the numbers'',
                    step_math = ''$2+2=4$''\<rparr>],
           finalAnswer = ''$4$'', tutoringTip = None\<rparr>, \<lambda>i. 12 + i),
         ([], Some ''data:image/png;base64,AAAA'', \<lambda>_. 20,
          \<lparr>description = [], concepts = [], steps = [], finalAnswer = ''$x = 5$'',
           tutoringTip = Some ''Isolate x''\<rparr>, \<lambda>i. 22 + i)]"]
  by (simp add: initial_def entry_of_def entry_title_def toString.simps quote_def escape_def)

text \<open>
  Claim C9. The load at startup neither cuts nor checks. With no entry under the key the
  state stays as it is, the history empty. With an entry whose text is JSON the history
  becomes the parsed value, whatever it is: a stored array of more than 20 entries is
  loaded whole. A failed solve and clearing the conversation leave the history as it is;
  the next successful solve puts its entry in front of the array and keeps the first 20.
\<close>

theorem C9_load_is_verbatim:
  "(localStorage s history_key = None \<longrightarrow> loadHistory s = Inr s)
   \<and> (localStorage s history_key = Some saved \<and> JSON_parse saved = Some v \<longrightarrow>
        loadHistory s = Inr (s\<lparr>history := v\<rparr>))
   \<and> (history s = JArr xs \<and> \<not> isSolving s \<longrightarrow>
        history (solved s x) = JArr (take 20 (entry_of x # xs))
        \<and> length (take 20 (entry_of x # xs)) \<le> 20)
   \<and> history (submit txt img clk (Inl e) clk' s) = history s
   \<and> history (clearConversation s) = history s"
proof -
  have "saved \<noteq> []" if "JSON_parse saved = Some v"
    using that JSON_parse_empty_text by auto
  then have load: "loadHistory s = Inr (s\<lparr>history := v\<rparr>)"
    if "localStorage s history_key = Some saved" "JSON_parse saved = Some v"
    using that by (simp add: loadHistory_def)
  have fail: "history (submit txt img clk (Inl e) clk' s) = history s"
    by (simp add: submit_def processSolution_def resume_def)
  show ?thesis
    using load fail solved_step(1) [of s xs x]
    by (simp add: loadHistory_def clearConversation_def)
qed

theorem C9_witness:
  "localStorage (initial Map.empty) history_key = None
   \<and> loadHistory (initial Map.empty) = Inr (initial Map.empty)
   \<and> history (initial Map.empty) = JArr []
   \<and> localStorage
         (initial [history_key \<mapsto> ''[1,2,3,4,5,6,7,8,9,10,11,12,13,14,15,16,17,18,19,20,21]''])
         history_key
       = Some ''[1,2,3,4,5,6,7,8,9,10,11,12,13,14,15,16,17,18,19,20,21]''
   \<and> JSON_parse ''[1,2,3,4,5,6,7,8,9,10,11,12,13,14,15,16,17,18,19,20,21]''
       = Some (JArr [JNum ''1'', JNum ''2'', JNum ''3'', JNum ''4'', JNum ''5'', JNum ''6'',
                     JNum ''7'', JNum ''8'', JNum ''9'', JNum ''10'', JNum ''11'', JNum ''12'',
                     JNum ''13'', JNum ''14'', JNum ''15'', JNum ''16'', JNum ''17'',
                     JNum ''18'', JNum ''19'', JNum ''20'', JNum ''21''])
   \<and> loadHistory
         (initial [history_key \<mapsto> ''[1,2,3,4,5,6,7,8,9,10,11,12,13,14,15,16,17,18,19,20,21]''])
       = Inr ((initial
                [history_key \<mapsto> ''[1,2,3,4,5,6,7,8,9,10,11,12,13,14,15,16,17,18,19,20,21]''])
              \<lparr>history :=
                 JArr [JNum ''1'', JNum ''2'', JNum ''3'', JNum ''4'', JNum ''5'', JNum ''6'',
                       JNum ''7'', JNum ''8'', JNum ''9'', JNum ''10'', JNum ''11'', JNum ''12'',
                       JNum ''13'', JNum ''14'', JNum ''15'', JNum ''16'', JNum ''17'',
                       JNum ''18'', JNum ''19'', JNum ''20'', JNum ''21'']\<rparr>)
   \<and> history
         (solved
            ((initial Map.empty)
             \<lparr>history :=
                JArr [JNum ''1'', JNum ''2'', JNum ''3'', JNum ''4'', JNum ''5'', JNum ''6'',
                      JNum ''7'', JNum ''8'', JNum ''9'', JNum ''10'', JNum ''11'', JNum ''12'',
                      JNum ''13'', JNum ''14'', JNum ''15'', JNum ''16'', JNum ''17'',
                      JNum ''18'', JNum ''19'', JNum ''20'', JNum ''21'']\<rparr>)
            (''2+2'', None, \<lambda>_. 10,
             \<lparr>description = ''Add 2 and 2'', concepts = [], steps = [], finalAnswer = ''$4$'',
              tutoringTip = None\<rparr>,
             \<lambda>i. 12 + i))
       = JArr [JObj [(''id'', JStr ''14''), (''title'', JStr ''Add 2 and 2''),
                     (''timestamp'', JNum ''15''), (''lastMessage'', JStr ''$4$'')],
               JNum ''1'', JNum ''2'', JNum ''3'', JNum ''4'', JNum ''5'', JNum ''6'',
               JNum ''7'', JNum ''8'', JNum ''9'', JNum ''10'', JNum ''11'', JNum ''12'',
               JNum ''13'', JNum ''14'', JNum ''15'', JNum ''16'', JNum ''17'', JNum ''18'',
               JNum ''19'']"
  using C9_load_is_verbatim [of "initial Map.empty"]
        C9_load_is_verbatim
          [of "initial [history_key \<mapsto> ''[1,2,3,4,5,6,7,8,9,10,11,12,13,14,15,16,17,18,19,20,21]'']"
              "''[1,2,3,4,5,6,7,8,9,10,11,12,13,14,15,16,17,18,19,20,21]''"
              "JArr [JNum ''1'', JNum ''2'', JNum ''3'', JNum ''4'', JNum ''5'', JNum ''6'',
                     JNum ''7'', JNum ''8'', JNum ''9'', JNum ''10'', JNum ''11'', JNum ''12'',
                     JNum ''13'', JNum ''14'', JNum ''15'', JNum ''16'', JNum ''17'',
                     JNum ''18'', JNum ''19'', JNum ''20'', JNum ''21'']"]
        C9_load_is_verbatim
          [of "(initial Map.empty)
             \<lparr>history :=
                JArr [JNum ''1'', JNum ''2'', JNum ''3'', JNum ''4'', JNum ''5'', JNum ''6'',
                      JNum ''7'', JNum ''8'', JNum ''9'', JNum ''10'', JNum ''11'', JNum ''12'',
                      JNum ''13'', JNum ''14'', JNum ''15'', JNum ''16'', JNum ''17'',
                      JNum ''18'', JNum ''19'', JNum ''20'', JNum ''21'']\<rparr>" _ _
              "[JNum ''1'', JNum ''2'', JNum ''3'', JNum ''4'', JNum ''5'', JNum ''6'',
                      JNum ''7'', JNum ''8'', JNum ''9'', JNum ''10'', JNum ''11'', JNum ''12'',
                      JNum ''13'', JNum ''14'', JNum ''15'', JNum ''16'', JNum ''17'',
                      JNum ''18'', JNum ''19'', JNum ''20'', JNum ''21'']"
              "(''2+2'', None, \<lambda>_. 10,
             \<lparr>description = ''Add 2 and 2'', concepts = [], steps = [], finalAnswer = ''$4$'',
              tutoringTip = None\<rparr>,
             \<lambda>i. 12 + i)"]
        JSON_parse_21
  by (simp add: initial_def entry_of_def entry_title_def toString.simps)

end
